theory Spec2Isabelle
  imports Complex_Main
begin

section \<open>Errors\<close>

text \<open>
  \<^verbatim>\<open>utils/httpError.js\<close>: an \<^verbatim>\<open>HttpError\<close> carries a message and a status code.
  Besides it the services can fail with a MongoDB duplicate-key error (code 11000, raised
  by a unique index), with a Mongoose validation error (a schema validator rejects a
  path on save) and with a JavaScript \<^verbatim>\<open>TypeError\<close> (a property read on null).
\<close>

datatype error =
    HttpError string nat
  | MongoDuplicateKey string
  | ValidationError
  | TypeError

definition badRequest :: "string \<Rightarrow> error" where
  "badRequest message = HttpError message 400"

definition unauthorized :: "string \<Rightarrow> error" where
  "unauthorized message = HttpError message 401"

definition forbidden :: "string \<Rightarrow> error" where
  "forbidden message = HttpError message 403"

definition notFound :: "string \<Rightarrow> error" where
  "notFound message = HttpError message 404"

definition conflict :: "string \<Rightarrow> error" where
  "conflict message = HttpError message 409"

section \<open>Data model\<close>

type_synonym object_id = string
type_synonym date = nat

datatype shipment_status = PENDING | IN_TRANSIT | DELIVERED | CANCELLED

fun status_str :: "shipment_status \<Rightarrow> string" where
  "status_str PENDING = ''pending''"
| "status_str IN_TRANSIT = ''in_transit''"
| "status_str DELIVERED = ''delivered''"
| "status_str CANCELLED = ''cancelled''"

datatype user_role = ADMIN | USER | MANAGER

record history_entry =
  entry_status :: shipment_status
  changedAt :: date
  changedBy :: object_id
  entry_notes :: "string option"

record attachment =
  attachment_id :: object_id
  filename :: string
  originalName :: string
  path :: string
  mimetype :: string
  att_size :: nat
  uploadedAt :: date

record shipment =
  shipment_id :: object_id
  trackingNumber :: string
  senderName :: string
  receiverName :: string
  origin :: string
  destination :: string
  status :: shipment_status
  weight :: "rat option"
  description :: "string option"
  estimatedDelivery :: "date option"
  actualDelivery :: "date option"
  attachments :: "attachment list"
  statusHistory :: "history_entry list"
  createdBy :: object_id
  updatedBy :: "object_id option"
  createdAt :: date

record user =
  user_id :: object_id
  name :: string
  email :: string
  password :: string
  role :: user_role
  isActive :: bool
  lastLogin :: "date option"
  avatar :: "string option"

text \<open>
  The three clock readings (\<^verbatim>\<open>new Date()\<close>) one request can make: in the service
  method, and twice in the model's pre-save hook.
\<close>

record times =
  t_service :: date
  t_history :: date
  t_delivery :: date

section \<open>Strings\<close>

text \<open>
  A string of the program is represented by a byte string (its UTF-8 encoding, say), so
  that equal strings are equal lists. What JavaScript computes from the characters of a
  string is not fixed here but taken as parameters of the model: the case mappings
  \<^verbatim>\<open>toLowerCase\<close> and \<^verbatim>\<open>toUpperCase\<close>, \<^verbatim>\<open>trim\<close>, the \<^verbatim>\<open>length\<close> of a string, and the
  test of the user schema's email pattern \<^verbatim>\<open>/^\S+@\S+\.\S+$/\<close>. Every function below
  that calls one of them takes the record of these five as its first argument.
\<close>

record js_strings =
  toLowerCase :: "string \<Rightarrow> string"
  toUpperCase :: "string \<Rightarrow> string"
  trim :: "string \<Rightarrow> string"
  strlen :: "string \<Rightarrow> nat"
  email_test :: "string \<Rightarrow> bool"

section \<open>The shipment collection\<close>

text \<open>
  The collection is the list of its documents. \<^verbatim>\<open>findById\<close> returns the document with
  the given \<^verbatim>\<open>_id\<close> or null; saving a loaded document replaces the stored one with the
  same \<^verbatim>\<open>_id\<close>; \<^verbatim>\<open>findByIdAndDelete\<close> removes it.
\<close>

definition findById :: "shipment list \<Rightarrow> object_id \<Rightarrow> shipment option" where
  "findById store i = find (\<lambda>s. shipment_id s = i) store"

fun replaceOne :: "shipment \<Rightarrow> shipment list \<Rightarrow> shipment list" where
  "replaceOne doc [] = []"
| "replaceOne doc (x # xs) =
     (if shipment_id x = shipment_id doc then doc # xs else x # replaceOne doc xs)"

fun findByIdAndDelete :: "shipment list \<Rightarrow> object_id \<Rightarrow> shipment list" where
  "findByIdAndDelete [] i = []"
| "findByIdAndDelete (x # xs) i =
     (if shipment_id x = i then xs else x # findByIdAndDelete xs i)"

text \<open>
  \<^verbatim>\<open>models/Shipment.js\<close>, the second pre-save hook. \<^verbatim>\<open>isModified("status")\<close> holds
  when the status of the document being saved differs from the one that was loaded:
  assigning a path the value it already has does not mark it modified.
\<close>

definition pre_save_status :: "shipment \<Rightarrow> shipment \<Rightarrow> times \<Rightarrow> shipment" where
  "pre_save_status loaded doc tm =
     (if status doc \<noteq> status loaded then
        let d1 = doc\<lparr>statusHistory := statusHistory doc @
                   [\<lparr>entry_status = status doc, changedAt = t_history tm,
                     changedBy = (case updatedBy doc of Some u \<Rightarrow> u | None \<Rightarrow> createdBy doc),
                     entry_notes = None\<rparr>]\<rparr>
        in if status d1 = DELIVERED \<and> actualDelivery d1 = None
           then d1\<lparr>actualDelivery := Some (t_delivery tm)\<rparr>
           else d1
      else doc)"

definition save :: "shipment list \<Rightarrow> shipment \<Rightarrow> shipment \<Rightarrow> times \<Rightarrow> shipment list" where
  "save store loaded doc tm = replaceOne (pre_save_status loaded doc tm) store"

section \<open>Shipment service\<close>

fun validTransitions :: "shipment_status \<Rightarrow> shipment_status list" where
  "validTransitions PENDING = [IN_TRANSIT, CANCELLED]"
| "validTransitions IN_TRANSIT = [DELIVERED, CANCELLED]"
| "validTransitions DELIVERED = []"
| "validTransitions CANCELLED = []"

definition validateStatusTransition :: "shipment_status \<Rightarrow> shipment_status \<Rightarrow> error + unit" where
  "validateStatusTransition currentStatus newStatus =
     (if currentStatus = newStatus then Inr ()
      else if newStatus \<notin> set (validTransitions currentStatus) then
        Inl (badRequest (''Cannot transition from '' @ status_str currentStatus @
                         '' to '' @ status_str newStatus))
      else Inr ())"

text \<open>
  Every service method returns its outcome together with the collection after the call;
  a thrown error leaves the collection as it was. The \<^verbatim>\<open>populate\<close> calls on the
  returned document only decorate the copy that is sent back and are left out, except
  in \<^verbatim>\<open>getShipmentById\<close>, whose authorization check reads the populated owner.
\<close>

definition updateStatus ::
  "shipment list \<Rightarrow> object_id \<Rightarrow> shipment_status \<Rightarrow> object_id \<Rightarrow> string \<Rightarrow> bool \<Rightarrow> times
     \<Rightarrow> (error + shipment option) \<times> shipment list" where
  "updateStatus store i newStatus userId notes' isAdmin tm =
     (case findById store i of
        None \<Rightarrow> (Inl (notFound ''Shipment not found''), store)
      | Some shipment \<Rightarrow>
          if \<not> isAdmin \<and> createdBy shipment \<noteq> userId then
            (Inl (forbidden ''You do not have access to this shipment''), store)
          else
            (case validateStatusTransition (status shipment) newStatus of
               Inl e \<Rightarrow> (Inl e, store)
             | Inr _ \<Rightarrow>
                 let s1 = shipment\<lparr>status := newStatus, updatedBy := Some userId\<rparr>;
                     s2 = s1\<lparr>statusHistory := statusHistory s1 @
                            [\<lparr>entry_status = newStatus, changedAt = t_service tm,
                              changedBy = userId, entry_notes = Some notes'\<rparr>]\<rparr>;
                     store' = save store shipment s2 tm
                 in (Inr (findById store' i), store')))"


subsection \<open>Reading\<close>

definition findUserById :: "user list \<Rightarrow> object_id \<Rightarrow> user option" where
  "findUserById users i = find (\<lambda>u. user_id u = i) users"



text \<open>
  \<^verbatim>\<open>findByTrackingNumber\<close>: \<^verbatim>\<open>findOne({ trackingNumber: trackingNumber.toUpperCase() })\<close>.
  The schema declares the path \<^verbatim>\<open>uppercase\<close>; this setter runs when the path is set on a
  document and when a query filters on it.
\<close>

definition trackingNumber_setters :: "js_strings \<Rightarrow> string \<Rightarrow> string" where
  "trackingNumber_setters js v = toUpperCase js v"

definition findByTrackingNumber :: "js_strings \<Rightarrow> shipment list \<Rightarrow> string \<Rightarrow> shipment option" where
  "findByTrackingNumber js store tn =
     find (\<lambda>s. trackingNumber s = trackingNumber_setters js (toUpperCase js tn)) store"


text \<open>
  \<^verbatim>\<open>trackShipment\<close> selects ten paths of the document; a selection keeps \<^verbatim>\<open>_id\<close>, and the
  selected \<^verbatim>\<open>statusHistory\<close> array comes with all the fields of its entries.
\<close>

record tracking_view =
  tv_id :: object_id
  tv_trackingNumber :: string
  tv_senderName :: string
  tv_receiverName :: string
  tv_origin :: string
  tv_destination :: string
  tv_status :: shipment_status
  tv_statusHistory :: "history_entry list"
  tv_estimatedDelivery :: "date option"
  tv_actualDelivery :: "date option"
  tv_createdAt :: date

definition select_tracking :: "shipment \<Rightarrow> tracking_view" where
  "select_tracking s =
     \<lparr>tv_id = shipment_id s, tv_trackingNumber = trackingNumber s,
      tv_senderName = senderName s, tv_receiverName = receiverName s,
      tv_origin = origin s, tv_destination = destination s, tv_status = status s,
      tv_statusHistory = statusHistory s, tv_estimatedDelivery = estimatedDelivery s,
      tv_actualDelivery = actualDelivery s, tv_createdAt = createdAt s\<rparr>"

definition trackShipment :: "js_strings \<Rightarrow> shipment list \<Rightarrow> string \<Rightarrow> error + tracking_view" where
  "trackShipment js store tn =
     (case findByTrackingNumber js store tn of
        None \<Rightarrow> Inl (notFound ''Shipment not found'')
      | Some shipment \<Rightarrow> Inr (select_tracking shipment))"

subsection \<open>Deleting\<close>

definition deleteShipment ::
  "shipment list \<Rightarrow> object_id \<Rightarrow> object_id \<Rightarrow> bool \<Rightarrow> (error + string) \<times> shipment list" where
  "deleteShipment store i userId isAdmin =
     (case findById store i of
        None \<Rightarrow> (Inl (notFound ''Shipment not found''), store)
      | Some shipment \<Rightarrow>
          if \<not> isAdmin \<and> createdBy shipment \<noteq> userId then
            (Inl (forbidden ''You do not have access to this shipment''), store)
          else if \<not> isAdmin \<and> status shipment \<noteq> PENDING \<and> status shipment \<noteq> CANCELLED then
            (Inl (badRequest ''Can only delete pending or cancelled shipments''), store)
          else (Inr ''Shipment deleted successfully'', findByIdAndDelete store i))"

subsection \<open>Attachments\<close>

text \<open>
  The attachment handed to \<^verbatim>\<open>addAttachment\<close> is taken with the \<^verbatim>\<open>_id\<close> and the
  \<^verbatim>\<open>uploadedAt\<close> default that pushing it onto the array gives it.
\<close>

definition addAttachment ::
  "shipment list \<Rightarrow> object_id \<Rightarrow> attachment \<Rightarrow> object_id \<Rightarrow> bool \<Rightarrow> times
     \<Rightarrow> (error + shipment) \<times> shipment list" where
  "addAttachment store i att userId isAdmin tm =
     (case findById store i of
        None \<Rightarrow> (Inl (notFound ''Shipment not found''), store)
      | Some shipment \<Rightarrow>
          if \<not> isAdmin \<and> createdBy shipment \<noteq> userId then
            (Inl (forbidden ''You do not have access to this shipment''), store)
          else
            let s1 = shipment\<lparr>attachments := attachments shipment @ [att]\<rparr>;
                s2 = s1\<lparr>updatedBy := Some userId\<rparr>;
                saved = pre_save_status shipment s2 tm
            in (Inr saved, replaceOne saved store))"

fun findIndex :: "('a \<Rightarrow> bool) \<Rightarrow> 'a list \<Rightarrow> nat option" where
  "findIndex P [] = None"
| "findIndex P (x # xs) =
     (if P x then Some 0 else (case findIndex P xs of None \<Rightarrow> None | Some k \<Rightarrow> Some (Suc k)))"

definition splice1 :: "nat \<Rightarrow> 'a list \<Rightarrow> 'a list" where
  "splice1 k xs = take k xs @ drop (Suc k) xs"

definition removeAttachment ::
  "shipment list \<Rightarrow> object_id \<Rightarrow> object_id \<Rightarrow> object_id \<Rightarrow> bool \<Rightarrow> times
     \<Rightarrow> (error + shipment) \<times> shipment list" where
  "removeAttachment store i attachmentId userId isAdmin tm =
     (case findById store i of
        None \<Rightarrow> (Inl (notFound ''Shipment not found''), store)
      | Some shipment \<Rightarrow>
          if \<not> isAdmin \<and> createdBy shipment \<noteq> userId then
            (Inl (forbidden ''You do not have access to this shipment''), store)
          else
            (case findIndex (\<lambda>att. attachment_id att = attachmentId) (attachments shipment) of
               None \<Rightarrow> (Inl (notFound ''Attachment not found''), store)
             | Some attachmentIndex \<Rightarrow>
                 let s1 = shipment\<lparr>attachments := splice1 attachmentIndex (attachments shipment)\<rparr>;
                     s2 = s1\<lparr>updatedBy := Some userId\<rparr>;
                     saved = pre_save_status shipment s2 tm
                 in (Inr saved, replaceOne saved store)))"


subsection \<open>Generic update\<close>

text \<open>
  The body of \<^verbatim>\<open>PUT /shipments/:id\<close> after the route's validation
  (\<^verbatim>\<open>shipmentValidation.update\<close> with \<^verbatim>\<open>stripUnknown\<close>): eight optional fields, the
  status among them; \<^verbatim>\<open>trackingNumber\<close> is stripped.
\<close>

record update_data =
  upd_senderName :: "string option"
  upd_receiverName :: "string option"
  upd_origin :: "string option"
  upd_destination :: "string option"
  upd_status :: "shipment_status option"
  upd_weight :: "rat option"
  upd_description :: "string option"
  upd_estimatedDelivery :: "date option"

text \<open>
  \<^verbatim>\<open>Object.assign(shipment, allowedUpdates)\<close>: every field present in the body is set on
  the document; the schema trims the string paths as they are set.
\<close>

definition assign :: "js_strings \<Rightarrow> update_data \<Rightarrow> object_id \<Rightarrow> shipment \<Rightarrow> shipment" where
  "assign js u userId s = s
     \<lparr>senderName := (case upd_senderName u of None \<Rightarrow> senderName s | Some v \<Rightarrow> trim js v),
      receiverName := (case upd_receiverName u of None \<Rightarrow> receiverName s | Some v \<Rightarrow> trim js v),
      origin := (case upd_origin u of None \<Rightarrow> origin s | Some v \<Rightarrow> trim js v),
      destination := (case upd_destination u of None \<Rightarrow> destination s | Some v \<Rightarrow> trim js v),
      status := (case upd_status u of None \<Rightarrow> status s | Some v \<Rightarrow> v),
      weight := (case upd_weight u of None \<Rightarrow> weight s | Some v \<Rightarrow> Some v),
      description :=
        (case upd_description u of None \<Rightarrow> description s | Some v \<Rightarrow> Some (trim js v)),
      estimatedDelivery :=
        (case upd_estimatedDelivery u of None \<Rightarrow> estimatedDelivery s | Some v \<Rightarrow> Some v),
      updatedBy := Some userId\<rparr>"

text \<open>
  Saving validates the paths that changed against the schema: length bounds on the four
  names, on the description, and the range of the weight.
\<close>

definition length_between :: "js_strings \<Rightarrow> nat \<Rightarrow> nat \<Rightarrow> string \<Rightarrow> bool" where
  "length_between js lo hi v = (lo \<le> strlen js v \<and> strlen js v \<le> hi)"

definition validate_modified :: "js_strings \<Rightarrow> shipment \<Rightarrow> shipment \<Rightarrow> bool" where
  "validate_modified js loaded doc =
     ((senderName doc = senderName loaded \<or> length_between js 2 100 (senderName doc)) \<and>
      (receiverName doc = receiverName loaded \<or> length_between js 2 100 (receiverName doc)) \<and>
      (origin doc = origin loaded \<or> length_between js 2 200 (origin doc)) \<and>
      (destination doc = destination loaded \<or> length_between js 2 200 (destination doc)) \<and>
      (weight doc = weight loaded \<or>
         (case weight doc of None \<Rightarrow> True | Some w \<Rightarrow> 0 \<le> w \<and> w \<le> 10000)) \<and>
      (description doc = description loaded \<or>
         (case description doc of None \<Rightarrow> True | Some d \<Rightarrow> strlen js d \<le> 1000)))"

definition updateShipment ::
  "js_strings \<Rightarrow> shipment list \<Rightarrow> object_id \<Rightarrow> update_data \<Rightarrow> object_id \<Rightarrow> bool \<Rightarrow> times
     \<Rightarrow> (error + shipment option) \<times> shipment list" where
  "updateShipment js store i updateData userId isAdmin tm =
     (case findById store i of
        None \<Rightarrow> (Inl (notFound ''Shipment not found''), store)
      | Some shipment \<Rightarrow>
          if \<not> isAdmin \<and> createdBy shipment \<noteq> userId then
            (Inl (forbidden ''You do not have access to this shipment''), store)
          else
            let s1 = assign js updateData userId shipment
            in if \<not> validate_modified js shipment s1 then (Inl ValidationError, store)
               else let store' = save store shipment s1 tm
                    in (Inr (findById store' i), store'))"

subsection \<open>Creation\<close>

text \<open>
  The body of \<^verbatim>\<open>POST /shipments\<close> as \<^verbatim>\<open>createShipment\<close> receives it. The service adds
  the owner and a one-entry status history to it and hands the whole to \<^verbatim>\<open>create\<close>.
\<close>

record create_data =
  new_senderName :: string
  new_receiverName :: string
  new_origin :: string
  new_destination :: string
  new_status :: "shipment_status option"
  new_weight :: "rat option"
  new_description :: "string option"
  new_estimatedDelivery :: "date option"
  new_attachments :: "attachment list"

text \<open>
  \<^verbatim>\<open>new this.model(data)\<close> for the shipment model: the document gets a fresh \<^verbatim>\<open>_id\<close>,
  the paths of the data with the schema's setters applied (the strings trimmed), and
  the schema's defaults: the tracking number is the result of
  \<^verbatim>\<open>generateTrackingNumber()\<close>, passed through the path's \<^verbatim>\<open>uppercase\<close> setter, and the
  status is pending when the data has none. The result of \<^verbatim>\<open>generateTrackingNumber()\<close>,
  which reads the clock and a random number, is an argument. The creation time is set
  when the document is inserted; until then the field holds 0.
\<close>

definition new_Shipment ::
  "js_strings \<Rightarrow> create_data \<Rightarrow> object_id \<Rightarrow> history_entry list \<Rightarrow> object_id \<Rightarrow> string
     \<Rightarrow> shipment" where
  "new_Shipment js d owner history newId generated =
     \<lparr>shipment_id = newId, trackingNumber = trackingNumber_setters js generated,
      senderName = trim js (new_senderName d), receiverName = trim js (new_receiverName d),
      origin = trim js (new_origin d), destination = trim js (new_destination d),
      status = (case new_status d of None \<Rightarrow> PENDING | Some v \<Rightarrow> v),
      weight = new_weight d, description = map_option (trim js) (new_description d),
      estimatedDelivery = new_estimatedDelivery d, actualDelivery = None,
      attachments = new_attachments d, statusHistory = history,
      createdBy = owner, updatedBy = None, createdAt = 0\<rparr>"

text \<open>
  \<^verbatim>\<open>document.save()\<close> for a new shipment: the schema's validators run; then the pre-save
  hooks, of which the first finds the tracking number present and the second pushes a
  history entry (and dates the delivery) when the status is modified, which for a new
  document means that the data supplied one; then the document is inserted with its
  creation time, unless the unique index finds its tracking number already stored.
\<close>

definition save_new ::
  "js_strings \<Rightarrow> shipment list \<Rightarrow> shipment \<Rightarrow> bool \<Rightarrow> times \<Rightarrow> (error + shipment) \<times> shipment list" where
  "save_new js store doc statusModified tm =
     (let valid = (length_between js 2 100 (senderName doc) \<and>
                   length_between js 2 100 (receiverName doc) \<and>
                   length_between js 2 200 (origin doc) \<and>
                   length_between js 2 200 (destination doc) \<and>
                   (case weight doc of None \<Rightarrow> True | Some w \<Rightarrow> 0 \<le> w \<and> w \<le> 10000) \<and>
                   (case description doc of None \<Rightarrow> True | Some t \<Rightarrow> strlen js t \<le> 1000));
          hooked =
            (if statusModified then
               let d1 = doc\<lparr>statusHistory := statusHistory doc @
                          [\<lparr>entry_status = status doc, changedAt = t_history tm,
                            changedBy = (case updatedBy doc of Some u \<Rightarrow> u | None \<Rightarrow> createdBy doc),
                            entry_notes = None\<rparr>]\<rparr>
               in if status d1 = DELIVERED \<and> actualDelivery d1 = None
                  then d1\<lparr>actualDelivery := Some (t_delivery tm)\<rparr>
                  else d1
             else doc);
          inserted = hooked\<lparr>createdAt := t_service tm\<rparr>
      in if \<not> valid then (Inl ValidationError, store)
         else if list_ex (\<lambda>s. trackingNumber s = trackingNumber inserted) store then
           (Inl (MongoDuplicateKey ''trackingNumber''), store)
         else (Inr inserted, store @ [inserted]))"

text \<open>
  \<^verbatim>\<open>base.service.js\<close>, \<^verbatim>\<open>create(data)\<close>, for the shipment service:
  \<^verbatim>\<open>const document = new this.model(data); return document.save()\<close>. The data object is
  given by its three parts: the request body, \<^verbatim>\<open>createdBy\<close> and \<^verbatim>\<open>statusHistory\<close>.
\<close>

definition create_shipment ::
  "js_strings \<Rightarrow> shipment list \<Rightarrow> create_data \<Rightarrow> object_id \<Rightarrow> history_entry list \<Rightarrow> object_id
     \<Rightarrow> string \<Rightarrow> times \<Rightarrow> (error + shipment) \<times> shipment list" where
  "create_shipment js store d owner history newId generated tm =
     (let document = new_Shipment js d owner history newId generated
      in save_new js store document (new_status d \<noteq> None) tm)"

definition createShipment ::
  "js_strings \<Rightarrow> shipment list \<Rightarrow> create_data \<Rightarrow> object_id \<Rightarrow> object_id \<Rightarrow> string \<Rightarrow> times
     \<Rightarrow> (error + shipment option) \<times> shipment list" where
  "createShipment js store shipmentData userId newId generated tm =
     (let history = [\<lparr>entry_status = (case new_status shipmentData of None \<Rightarrow> PENDING | Some v \<Rightarrow> v),
                       changedAt = t_service tm, changedBy = userId, entry_notes = None\<rparr>]
      in case create_shipment js store shipmentData userId history newId generated tm of
           (Inl e, store') \<Rightarrow> (Inl e, store')
         | (Inr shipment, store') \<Rightarrow> (Inr (findById store' (shipment_id shipment)), store'))"

section \<open>Shipment controller\<close>



definition controller_update ::
  "js_strings \<Rightarrow> shipment list \<Rightarrow> user \<Rightarrow> object_id \<Rightarrow> update_data \<Rightarrow> times
     \<Rightarrow> (error + shipment option) \<times> shipment list" where
  "controller_update js store actor i body tm =
     updateShipment js store i body (user_id actor) (role actor = ADMIN) tm"






section \<open>User service\<close>

text \<open>
  Password hashing and comparison (bcrypt) are parameters of the model: \<open>hash\<close> maps a
  password to its stored hash and \<open>compare candidate stored\<close> tells whether the candidate
  matches. A signed token is represented by the claims it carries.
\<close>

datatype auth_token = Jwt object_id string user_role

record user_json =
  json_id :: object_id
  json_name :: string
  json_email :: string
  json_role :: user_role
  json_isActive :: bool
  json_lastLogin :: "date option"
  json_avatar :: "string option"

definition toJSON :: "user \<Rightarrow> user_json" where
  "toJSON u = \<lparr>json_id = user_id u, json_name = name u, json_email = email u,
               json_role = role u, json_isActive = isActive u,
               json_lastLogin = lastLogin u, json_avatar = avatar u\<rparr>"

definition generateAuthToken :: "user \<Rightarrow> auth_token" where
  "generateAuthToken u = Jwt (user_id u) (email u) (role u)"

text \<open>
  The schema declares the email path \<^verbatim>\<open>lowercase\<close> and \<^verbatim>\<open>trim\<close>; these setters run
  when a document's email is set and when a query filters on it, the trimming first.
\<close>

definition email_setters :: "js_strings \<Rightarrow> string \<Rightarrow> string" where
  "email_setters js e = toLowerCase js (trim js e)"

definition findOneByEmail :: "js_strings \<Rightarrow> user list \<Rightarrow> string \<Rightarrow> user option" where
  "findOneByEmail js users e = find (\<lambda>u. email u = email_setters js e) users"

definition findByEmail :: "js_strings \<Rightarrow> user list \<Rightarrow> string \<Rightarrow> user option" where
  "findByEmail js users e = findOneByEmail js users (toLowerCase js e)"

fun replaceUser :: "user \<Rightarrow> user list \<Rightarrow> user list" where
  "replaceUser doc [] = []"
| "replaceUser doc (x # xs) =
     (if user_id x = user_id doc then doc # xs else x # replaceUser doc xs)"

record register_data =
  reg_name :: string
  reg_email :: string
  reg_password :: string

text \<open>
  \<^verbatim>\<open>new this.model(data)\<close> for the user model: a fresh \<^verbatim>\<open>_id\<close>, the name trimmed, the
  email through its setters, the password as given, and the schema's defaults for the
  role and the active flag.
\<close>

definition new_User :: "js_strings \<Rightarrow> register_data \<Rightarrow> object_id \<Rightarrow> user" where
  "new_User js d newId =
     \<lparr>user_id = newId, name = trim js (reg_name d), email = email_setters js (reg_email d),
      password = reg_password d, role = USER, isActive = True,
      lastLogin = None, avatar = None\<rparr>"

text \<open>
  \<^verbatim>\<open>document.save()\<close> for a new user: the schema's validators run (length of the name,
  pattern of the email, length of the password); the pre-save hook hashes the password,
  which is modified on a new document; the document is inserted unless the unique index
  finds its email already stored.
\<close>

definition save_new_user ::
  "js_strings \<Rightarrow> (string \<Rightarrow> string) \<Rightarrow> user list \<Rightarrow> user \<Rightarrow> (error + user) \<times> user list" where
  "save_new_user js hash users doc =
     (let valid = (length_between js 2 100 (name doc) \<and> email_test js (email doc) \<and>
                   6 \<le> strlen js (password doc));
          hashed = doc\<lparr>password := hash (password doc)\<rparr>
      in if \<not> valid then (Inl ValidationError, users)
         else if list_ex (\<lambda>u. email u = email hashed) users then
           (Inl (MongoDuplicateKey ''email''), users)
         else (Inr hashed, users @ [hashed]))"

text \<open>
  \<^verbatim>\<open>base.service.js\<close>, \<^verbatim>\<open>create(data)\<close>, for the user service:
  \<^verbatim>\<open>const document = new this.model(data); return document.save()\<close>.
\<close>

definition create_user ::
  "js_strings \<Rightarrow> (string \<Rightarrow> string) \<Rightarrow> user list \<Rightarrow> register_data \<Rightarrow> object_id
     \<Rightarrow> (error + user) \<times> user list" where
  "create_user js hash users d newId =
     (let document = new_User js d newId
      in save_new_user js hash users document)"

definition register ::
  "js_strings \<Rightarrow> (string \<Rightarrow> string) \<Rightarrow> user list \<Rightarrow> register_data \<Rightarrow> object_id
     \<Rightarrow> (error + user_json \<times> auth_token) \<times> user list" where
  "register js hash users userData newId =
     (case findByEmail js users (reg_email userData) of
        Some existingUser \<Rightarrow> (Inl (conflict ''Email already registered''), users)
      | None \<Rightarrow>
          (case create_user js hash users userData newId of
             (Inl e, users') \<Rightarrow> (Inl e, users')
           | (Inr u, users') \<Rightarrow> (Inr (toJSON u, generateAuthToken u), users')))"

definition login ::
  "js_strings \<Rightarrow> (string \<Rightarrow> string \<Rightarrow> bool) \<Rightarrow> user list \<Rightarrow> string \<Rightarrow> string \<Rightarrow> date
     \<Rightarrow> (error + user_json \<times> auth_token) \<times> user list" where
  "login js compare users email' password' now =
     (case findOneByEmail js users (toLowerCase js email') of
        None \<Rightarrow> (Inl (unauthorized ''Invalid email or password''), users)
      | Some u \<Rightarrow>
          if \<not> isActive u then (Inl (forbidden ''Account is deactivated''), users)
          else if \<not> compare password' (password u) then
            (Inl (unauthorized ''Invalid email or password''), users)
          else
            let u' = u\<lparr>lastLogin := Some now\<rparr>
            in (Inr (toJSON u', generateAuthToken u'), replaceUser u' users))"

text \<open>
  The data objects that the user service hands to \<^verbatim>\<open>updateById\<close>: a profile update
  (name, email), \<^verbatim>\<open>{ avatar }\<close>, \<^verbatim>\<open>{ role }\<close> and \<^verbatim>\<open>{ isActive }\<close>; a field that the
  object lacks is \<open>None\<close>.
\<close>

record user_update =
  set_name :: "string option"
  set_email :: "string option"
  set_role :: "user_role option"
  set_isActive :: "bool option"
  set_avatar :: "string option"

text \<open>
  \<^verbatim>\<open>findByIdAndUpdate(id, data, { new: true, runValidators: true })\<close> on the user model:
  null when no stored user has the id; otherwise the fields of the data are set on the
  stored user, the strings through the schema's setters, the validators of the name and
  of the email run on the new values, the unique index rejects a new email that another
  stored user has, and the updated user is returned.
\<close>

definition findByIdAndUpdate ::
  "js_strings \<Rightarrow> user list \<Rightarrow> object_id \<Rightarrow> user_update \<Rightarrow> (error + user option) \<times> user list" where
  "findByIdAndUpdate js users i d =
     (case findUserById users i of
        None \<Rightarrow> (Inr None, users)
      | Some u \<Rightarrow>
          let u' = u\<lparr>name := (case set_name d of None \<Rightarrow> name u | Some v \<Rightarrow> trim js v),
                     email := (case set_email d of None \<Rightarrow> email u | Some v \<Rightarrow> email_setters js v),
                     role := (case set_role d of None \<Rightarrow> role u | Some v \<Rightarrow> v),
                     isActive := (case set_isActive d of None \<Rightarrow> isActive u | Some v \<Rightarrow> v),
                     avatar := (case set_avatar d of None \<Rightarrow> avatar u | Some v \<Rightarrow> Some v)\<rparr>;
              valid = ((set_name d = None \<or> length_between js 2 100 (name u')) \<and>
                       (set_email d = None \<or> email_test js (email u')))
          in if \<not> valid then (Inl ValidationError, users)
             else if (case set_email d of
                        None \<Rightarrow> False
                      | Some v \<Rightarrow> list_ex (\<lambda>x. user_id x \<noteq> i \<and> email x = email u') users) then
               (Inl (MongoDuplicateKey ''email''), users)
             else (Inr (Some u'), replaceUser u' users))"

text \<open>
  \<^verbatim>\<open>base.service.js\<close>, \<^verbatim>\<open>updateById(id, data)\<close>, for the user service, whose model name
  is \<^verbatim>\<open>User\<close>: the document that \<^verbatim>\<open>findByIdAndUpdate\<close> returns, or the not-found error
  \<^verbatim>\<open>`${this.model.modelName} not found`\<close> when it returns null.
\<close>

definition updateById ::
  "js_strings \<Rightarrow> user list \<Rightarrow> object_id \<Rightarrow> user_update \<Rightarrow> (error + user) \<times> user list" where
  "updateById js users i d =
     (case findByIdAndUpdate js users i d of
        (Inl e, users') \<Rightarrow> (Inl e, users')
      | (Inr None, users') \<Rightarrow> (Inl (notFound ''User not found''), users')
      | (Inr (Some document), users') \<Rightarrow> (Inr document, users'))"

definition deactivateUser :: "js_strings \<Rightarrow> user list \<Rightarrow> object_id \<Rightarrow> (error + user) \<times> user list" where
  "deactivateUser js users userId =
     updateById js users userId
       \<lparr>set_name = None, set_email = None, set_role = None, set_isActive = Some False,
        set_avatar = None\<rparr>"

definition activateUser :: "js_strings \<Rightarrow> user list \<Rightarrow> object_id \<Rightarrow> (error + user) \<times> user list" where
  "activateUser js users userId =
     updateById js users userId
       \<lparr>set_name = None, set_email = None, set_role = None, set_isActive = Some True,
        set_avatar = None\<rparr>"

text \<open>
  The invariant of the user collection: no two stored emails are equal up to case; it is
  kept together with the fact that stored emails are in lower case.
\<close>

definition emails_unique :: "js_strings \<Rightarrow> user list \<Rightarrow> bool" where
  "emails_unique js users = distinct (map (\<lambda>u. toLowerCase js (email u)) users)"

definition emails_normalised :: "js_strings \<Rightarrow> user list \<Rightarrow> bool" where
  "emails_normalised js users = list_all (\<lambda>u. toLowerCase js (email u) = email u) users"


section \<open>The string functions on ASCII\<close>

text \<open>
  On strings of ASCII characters the five string functions are these; the examples
  below, whose strings are ASCII, are evaluated with them.
\<close>

definition lower_char :: "char \<Rightarrow> char" where
  "lower_char c =
     (case map_of (zip ''ABCDEFGHIJKLMNOPQRSTUVWXYZ'' ''abcdefghijklmnopqrstuvwxyz'') c of
        None \<Rightarrow> c | Some l \<Rightarrow> l)"

definition upper_char :: "char \<Rightarrow> char" where
  "upper_char c =
     (case map_of (zip ''abcdefghijklmnopqrstuvwxyz'' ''ABCDEFGHIJKLMNOPQRSTUVWXYZ'') c of
        None \<Rightarrow> c | Some u \<Rightarrow> u)"

definition is_space :: "char \<Rightarrow> bool" where
  "is_space c = (c \<in> set [CHR 0x09, CHR 0x0A, CHR 0x0B, CHR 0x0C, CHR 0x0D, CHR '' ''])"

definition ascii_trim :: "string \<Rightarrow> string" where
  "ascii_trim s = rev (dropWhile is_space (rev (dropWhile is_space s)))"

definition email_match :: "string \<Rightarrow> bool" where
  "email_match s =
     (\<not> list_ex is_space s \<and>
      list_ex (\<lambda>i. s ! i = CHR ''@'' \<and>
                   list_ex (\<lambda>j. s ! j = CHR ''.'') [i + 2 ..< length s - 1])
              [1 ..< length s])"

definition ascii :: js_strings where
  "ascii = \<lparr>toLowerCase = map lower_char, toUpperCase = map upper_char, trim = ascii_trim,
            strlen = length, email_test = email_match\<rparr>"

section \<open>Example data\<close>

definition ex_times :: times where
  "ex_times = \<lparr>t_service = 100, t_history = 101, t_delivery = 102\<rparr>"

definition ex_later :: times where
  "ex_later = \<lparr>t_service = 200, t_history = 201, t_delivery = 202\<rparr>"

definition ex_owner :: user where
  "ex_owner = \<lparr>user_id = ''u1'', name = ''Ada Owner'', email = ''ada@example.com'',
     password = ''hash:password123'', role = USER, isActive = True,
     lastLogin = None, avatar = None\<rparr>"

definition ex_other :: user where
  "ex_other = \<lparr>user_id = ''u2'', name = ''Bob Other'', email = ''bob@example.com'',
     password = ''hash:hunter234'', role = USER, isActive = True,
     lastLogin = None, avatar = None\<rparr>"

definition ex_admin :: user where
  "ex_admin = \<lparr>user_id = ''a1'', name = ''Root Admin'', email = ''admin@example.com'',
     password = ''hash:password123'', role = ADMIN, isActive = True,
     lastLogin = None, avatar = None\<rparr>"

definition ex_users :: "user list" where
  "ex_users = [ex_owner, ex_other, ex_admin]"

definition ex_create_data :: create_data where
  "ex_create_data = \<lparr>new_senderName = ''John Doe'', new_receiverName = ''Jane Smith'',
     new_origin = ''Lagos'', new_destination = ''Abuja'', new_status = None,
     new_weight = None, new_description = None, new_estimatedDelivery = None,
     new_attachments = []\<rparr>"

text \<open>The shipment that \<open>createShipment\<close> stores for \<open>ex_create_data\<close> and owner \<open>u1\<close>.\<close>

definition ex_shipment :: shipment where
  "ex_shipment = \<lparr>shipment_id = ''s1'', trackingNumber = ''SHP-ABC-123'',
     senderName = ''John Doe'', receiverName = ''Jane Smith'', origin = ''Lagos'',
     destination = ''Abuja'', status = PENDING, weight = None, description = None,
     estimatedDelivery = None, actualDelivery = None, attachments = [],
     statusHistory = [\<lparr>entry_status = PENDING, changedAt = 100, changedBy = ''u1'',
                        entry_notes = None\<rparr>],
     createdBy = ''u1'', updatedBy = None, createdAt = 100\<rparr>"

definition ex_store :: "shipment list" where
  "ex_store = [ex_shipment]"

text \<open>The collection after the owner moved \<open>ex_shipment\<close> to in_transit.\<close>

definition ex_in_transit_store :: "shipment list" where
  "ex_in_transit_store =
     snd (updateStatus ex_store ''s1'' IN_TRANSIT ''u1'' ''picked up'' False ex_times)"

text \<open>The collection after the owner then moved it to delivered.\<close>

definition ex_delivered_store :: "shipment list" where
  "ex_delivered_store =
     snd (updateStatus ex_in_transit_store ''s1'' DELIVERED ''u1'' ''handed over'' False ex_later)"

definition ex_attachment :: attachment where
  "ex_attachment = \<lparr>attachment_id = ''att1'', filename = ''invoice-1.pdf'',
     originalName = ''invoice.pdf'', path = ''uploads/invoice-1.pdf'',
     mimetype = ''application/pdf'', att_size = 2048, uploadedAt = 150\<rparr>"

text \<open>A validated update body that carries only a status.\<close>

definition ex_status_update :: update_data where
  "ex_status_update = \<lparr>upd_senderName = None, upd_receiverName = None, upd_origin = None,
     upd_destination = None, upd_status = Some PENDING, upd_weight = None,
     upd_description = None, upd_estimatedDelivery = None\<rparr>"

definition ex_delivered :: shipment where
  "ex_delivered = ex_shipment\<lparr>status := DELIVERED, actualDelivery := Some 202,
     updatedBy := Some ''u1'',
     statusHistory := statusHistory ex_shipment @
       [\<lparr>entry_status = IN_TRANSIT, changedAt = 100, changedBy = ''u1'',
         entry_notes = Some ''picked up''\<rparr>,
        \<lparr>entry_status = IN_TRANSIT, changedAt = 101, changedBy = ''u1'',
         entry_notes = None\<rparr>,
        \<lparr>entry_status = DELIVERED, changedAt = 200, changedBy = ''u1'',
         entry_notes = Some ''handed over''\<rparr>,
        \<lparr>entry_status = DELIVERED, changedAt = 201, changedBy = ''u1'',
         entry_notes = None\<rparr>]\<rparr>"

text \<open>A stand-in for bcrypt on the example users, and the users after \<open>u1\<close> was deactivated.\<close>

definition ex_compare :: "string \<Rightarrow> string \<Rightarrow> bool" where
  "ex_compare candidate stored = (stored = ''hash:'' @ candidate)"

definition ex_hash :: "string \<Rightarrow> string" where
  "ex_hash p = ''hash:'' @ p"

definition ex_deactivated_users :: "user list" where
  "ex_deactivated_users = snd (deactivateUser ascii ex_users ''u1'')"

text \<open>Two registration requests whose emails differ only in case.\<close>

definition ex_register_data :: register_data where
  "ex_register_data = \<lparr>reg_name = ''Carol New'', reg_email = ''Carol@Example.com'',
     reg_password = ''secret99''\<rparr>"

definition ex_register_again :: register_data where
  "ex_register_again = \<lparr>reg_name = ''Carol Twice'', reg_email = ''carol@EXAMPLE.com'',
     reg_password = ''another1''\<rparr>"

section \<open>Properties of the collection and of strings\<close>

lemma findById_id: "findById store i = Some s \<Longrightarrow> shipment_id s = i"
  by (auto simp: findById_def find_Some_iff)

lemma findById_replaceOne:
  "findById store i = Some s \<Longrightarrow> shipment_id d = i \<Longrightarrow> findById (replaceOne d store) i = Some d"
  by (induction store) (auto simp: findById_def split: if_splits)

lemma findById_replaceOne_other:
  "shipment_id d \<noteq> j \<Longrightarrow> findById (replaceOne d store) j = findById store j"
  by (induction store) (auto simp: findById_def)

lemma pre_save_status_id [simp]: "shipment_id (pre_save_status l d tm) = shipment_id d"
  by (simp add: pre_save_status_def Let_def)

lemma pre_save_status_status [simp]: "status (pre_save_status l d tm) = status d"
  by (simp add: pre_save_status_def Let_def)

lemma pre_save_status_createdBy [simp]: "createdBy (pre_save_status l d tm) = createdBy d"
  by (simp add: pre_save_status_def Let_def)

lemma updateStatus_accepted:
  assumes "findById store i = Some s" "isAdmin \<or> createdBy s = userId"
    and "validateStatusTransition (status s) st = Inr ()"
  shows "updateStatus store i st userId n isAdmin tm =
     (let d = pre_save_status s
                (s\<lparr>status := st, updatedBy := Some userId,
                   statusHistory := statusHistory s @
                     [\<lparr>entry_status = st, changedAt = t_service tm, changedBy = userId,
                       entry_notes = Some n\<rparr>]\<rparr>) tm
      in (Inr (Some d), replaceOne d store))"
  using assms findById_id[OF assms(1)]
  by (auto simp: updateStatus_def save_def Let_def findById_replaceOne)

lemma updateStatus_rejected:
  assumes "findById store i = Some s" "isAdmin \<or> createdBy s = userId"
    and "validateStatusTransition (status s) st = Inl e"
  shows "updateStatus store i st userId n isAdmin tm = (Inl e, store)"
  using assms by (auto simp: updateStatus_def)

lemma validate_iff:
  "cur \<noteq> new \<Longrightarrow> validateStatusTransition cur new =
     (if new \<in> set (validTransitions cur) then Inr ()
      else Inl (HttpError (''Cannot transition from '' @ status_str cur @ '' to '' @ status_str new) 400))"
  by (simp add: validateStatusTransition_def badRequest_def)


lemma accepted_document:
  "status s \<noteq> st \<Longrightarrow>
   pre_save_status s
     (s\<lparr>status := st, updatedBy := Some userId,
        statusHistory := statusHistory s @
          [\<lparr>entry_status = st, changedAt = t_service tm, changedBy = userId,
            entry_notes = Some n\<rparr>]\<rparr>) tm =
   s\<lparr>status := st, updatedBy := Some userId,
     statusHistory := statusHistory s @
       [\<lparr>entry_status = st, changedAt = t_service tm, changedBy = userId,
         entry_notes = Some n\<rparr>,
        \<lparr>entry_status = st, changedAt = t_history tm, changedBy = userId,
         entry_notes = None\<rparr>],
     actualDelivery := (if st = DELIVERED \<and> actualDelivery s = None
                        then Some (t_delivery tm) else actualDelivery s)\<rparr>"
  by (simp add: pre_save_status_def Let_def)

lemma lower_char_idem [simp]: "lower_char (lower_char c) = lower_char c"
  by (simp add: lower_char_def)

lemma is_space_lower_char [simp]: "is_space (lower_char c) = is_space c"
  by (simp add: lower_char_def is_space_def)

lemma dropWhile_space_lower:
  "dropWhile is_space (map lower_char s) = map lower_char (dropWhile is_space s)"
  by (induction s) auto

lemma ascii_toLowerCase_idem:
  "toLowerCase ascii (toLowerCase ascii s) = toLowerCase ascii s"
  by (simp add: ascii_def)

lemma ascii_trim_toLowerCase:
  "trim ascii (toLowerCase ascii s) = toLowerCase ascii (trim ascii s)"
  by (simp add: ascii_def ascii_trim_def dropWhile_space_lower rev_map)

section \<open>The status state machine\<close>

lemma member_validTransitions:
  "new \<in> set (validTransitions cur) \<longleftrightarrow>
     (cur, new) \<in> {(PENDING, IN_TRANSIT), (PENDING, CANCELLED),
                   (IN_TRANSIT, DELIVERED), (IN_TRANSIT, CANCELLED)}"
  by (cases cur; cases new) simp_all

lemma updateStatus_edge:
  assumes found: "findById store i = Some s"
    and auth: "isAdmin \<or> createdBy s = userId"
    and neq: "status s \<noteq> st"
    and edge: "st \<in> set (validTransitions (status s))"
    and d: "d = s\<lparr>status := st, updatedBy := Some userId,
         statusHistory := statusHistory s @
           [\<lparr>entry_status = st, changedAt = t_service tm, changedBy = userId,
             entry_notes = Some n\<rparr>,
            \<lparr>entry_status = st, changedAt = t_history tm, changedBy = userId,
             entry_notes = None\<rparr>],
         actualDelivery := (if st = DELIVERED \<and> actualDelivery s = None
                            then Some (t_delivery tm) else actualDelivery s)\<rparr>"
  shows "updateStatus store i st userId n isAdmin tm = (Inr (Some d), replaceOne d store)"
    and "findById (replaceOne d store) i = Some d"
proof -
  have ok: "validateStatusTransition (status s) st = Inr ()"
    using neq edge by (simp add: validate_iff)
  show "updateStatus store i st userId n isAdmin tm = (Inr (Some d), replaceOne d store)"
    by (simp add: updateStatus_accepted [OF found auth ok] accepted_document [OF neq] d Let_def)
  have "shipment_id d = i"
    using findById_id [OF found] by (simp add: d)
  then show "findById (replaceOne d store) i = Some d"
    by (rule findById_replaceOne [OF found])
qed

text \<open>
  C1. For a stored shipment and an authorized caller, a status-change request whose
  status differs from the current one is accepted exactly when the pair is one of the
  four edges of the transition table. When it is accepted, the call returns the
  shipment with the new status, and that shipment, under the same id, is what the
  collection holds afterwards. Any other pair is answered with a 400 error whose
  message names the current and the requested status, and the collection is left as it
  was. In particular pending to delivered is rejected, while pending to in_transit
  followed by in_transit to delivered is accepted twice and leaves the stored shipment
  delivered with its actual-delivery date set.
\<close>

theorem updateStatus_transition_table:
  assumes found: "findById store i = Some s"
    and auth: "isAdmin \<or> createdBy s = userId"
  shows "(status s \<noteq> newStatus \<longrightarrow>
           (if (status s, newStatus) \<in> {(PENDING, IN_TRANSIT), (PENDING, CANCELLED),
                                         (IN_TRANSIT, DELIVERED), (IN_TRANSIT, CANCELLED)}
            then (let d = s\<lparr>status := newStatus, updatedBy := Some userId,
                      statusHistory := statusHistory s @
                        [\<lparr>entry_status = newStatus, changedAt = t_service tm,
                          changedBy = userId, entry_notes = Some n\<rparr>,
                         \<lparr>entry_status = newStatus, changedAt = t_history tm,
                          changedBy = userId, entry_notes = None\<rparr>],
                      actualDelivery := (if newStatus = DELIVERED \<and> actualDelivery s = None
                                         then Some (t_delivery tm) else actualDelivery s)\<rparr>
                  in updateStatus store i newStatus userId n isAdmin tm =
                       (Inr (Some d), replaceOne d store) \<and>
                     findById (replaceOne d store) i = Some d \<and>
                     shipment_id d = i \<and> status d = newStatus)
            else updateStatus store i newStatus userId n isAdmin tm =
                   (Inl (HttpError (''Cannot transition from '' @ status_str (status s) @
                                    '' to '' @ status_str newStatus) 400), store))) \<and>
         (status s = PENDING \<longrightarrow>
            updateStatus store i DELIVERED userId n isAdmin tm =
              (Inl (HttpError ''Cannot transition from pending to delivered'' 400), store)) \<and>
         (status s = PENDING \<longrightarrow>
            (let d1 = s\<lparr>status := IN_TRANSIT, updatedBy := Some userId,
                   statusHistory := statusHistory s @
                     [\<lparr>entry_status = IN_TRANSIT, changedAt = t_service tm,
                       changedBy = userId, entry_notes = Some n\<rparr>,
                      \<lparr>entry_status = IN_TRANSIT, changedAt = t_history tm,
                       changedBy = userId, entry_notes = None\<rparr>]\<rparr>;
                 d2 = d1\<lparr>status := DELIVERED,
                   statusHistory := statusHistory d1 @
                     [\<lparr>entry_status = DELIVERED, changedAt = t_service tm',
                       changedBy = userId, entry_notes = Some n'\<rparr>,
                      \<lparr>entry_status = DELIVERED, changedAt = t_history tm',
                       changedBy = userId, entry_notes = None\<rparr>],
                   actualDelivery :=
                     Some (case actualDelivery s of None \<Rightarrow> t_delivery tm' | Some a \<Rightarrow> a)\<rparr>
             in updateStatus store i IN_TRANSIT userId n isAdmin tm =
                  (Inr (Some d1), replaceOne d1 store) \<and>
                updateStatus (replaceOne d1 store) i DELIVERED userId n' isAdmin tm' =
                  (Inr (Some d2), replaceOne d2 (replaceOne d1 store)) \<and>
                findById (replaceOne d2 (replaceOne d1 store)) i = Some d2 \<and>
                shipment_id d2 = i \<and> status d2 = DELIVERED \<and>
                actualDelivery d2 \<noteq> None))"
proof (intro conjI impI)
  assume neq: "status s \<noteq> newStatus"
  let ?d = "s\<lparr>status := newStatus, updatedBy := Some userId,
      statusHistory := statusHistory s @
        [\<lparr>entry_status = newStatus, changedAt = t_service tm,
          changedBy = userId, entry_notes = Some n\<rparr>,
         \<lparr>entry_status = newStatus, changedAt = t_history tm,
          changedBy = userId, entry_notes = None\<rparr>],
      actualDelivery := (if newStatus = DELIVERED \<and> actualDelivery s = None
                         then Some (t_delivery tm) else actualDelivery s)\<rparr>"
  show "if (status s, newStatus) \<in> {(PENDING, IN_TRANSIT), (PENDING, CANCELLED),
                                     (IN_TRANSIT, DELIVERED), (IN_TRANSIT, CANCELLED)}
        then (let d = ?d
              in updateStatus store i newStatus userId n isAdmin tm =
                   (Inr (Some d), replaceOne d store) \<and>
                 findById (replaceOne d store) i = Some d \<and>
                 shipment_id d = i \<and> status d = newStatus)
        else updateStatus store i newStatus userId n isAdmin tm =
               (Inl (HttpError (''Cannot transition from '' @ status_str (status s) @
                                '' to '' @ status_str newStatus) 400), store)"
  proof (cases "newStatus \<in> set (validTransitions (status s))")
    case True
    note step = updateStatus_edge [where tm = tm and n = n, OF found auth neq True refl]
    have "shipment_id ?d = i" "status ?d = newStatus"
      using findById_id [OF found] by simp_all
    with step True show ?thesis
      by (simp only: member_validTransitions if_True Let_def simp_thms)
  next
    case False
    then have bad: "validateStatusTransition (status s) newStatus =
        Inl (HttpError (''Cannot transition from '' @ status_str (status s) @
                        '' to '' @ status_str newStatus) 400)"
      using neq by (simp add: validate_iff)
    from False show ?thesis
      by (simp only: member_validTransitions if_False updateStatus_rejected [OF found auth bad])
  qed
next
  assume pending: "status s = PENDING"
  have bad: "validateStatusTransition (status s) DELIVERED =
      Inl (HttpError ''Cannot transition from pending to delivered'' 400)"
    by (simp add: pending validate_iff)
  show "updateStatus store i DELIVERED userId n isAdmin tm =
          (Inl (HttpError ''Cannot transition from pending to delivered'' 400), store)"
    by (rule updateStatus_rejected [OF found auth bad])
next
  assume pending: "status s = PENDING"
  define d1 where "d1 = s\<lparr>status := IN_TRANSIT, updatedBy := Some userId,
     statusHistory := statusHistory s @
       [\<lparr>entry_status = IN_TRANSIT, changedAt = t_service tm,
         changedBy = userId, entry_notes = Some n\<rparr>,
        \<lparr>entry_status = IN_TRANSIT, changedAt = t_history tm,
         changedBy = userId, entry_notes = None\<rparr>]\<rparr>"
  define d2 where "d2 = d1\<lparr>status := DELIVERED,
     statusHistory := statusHistory d1 @
       [\<lparr>entry_status = DELIVERED, changedAt = t_service tm',
         changedBy = userId, entry_notes = Some n'\<rparr>,
        \<lparr>entry_status = DELIVERED, changedAt = t_history tm',
         changedBy = userId, entry_notes = None\<rparr>],
     actualDelivery :=
       Some (case actualDelivery s of None \<Rightarrow> t_delivery tm' | Some a \<Rightarrow> a)\<rparr>"
  have neq1: "status s \<noteq> IN_TRANSIT" and edge1: "IN_TRANSIT \<in> set (validTransitions (status s))"
    by (simp_all add: pending)
  have d1_eq: "d1 = s\<lparr>status := IN_TRANSIT, updatedBy := Some userId,
     statusHistory := statusHistory s @
       [\<lparr>entry_status = IN_TRANSIT, changedAt = t_service tm,
         changedBy = userId, entry_notes = Some n\<rparr>,
        \<lparr>entry_status = IN_TRANSIT, changedAt = t_history tm,
         changedBy = userId, entry_notes = None\<rparr>],
     actualDelivery := (if IN_TRANSIT = DELIVERED \<and> actualDelivery s = None
                        then Some (t_delivery tm) else actualDelivery s)\<rparr>"
    by (simp add: d1_def)
  note step1 = updateStatus_edge [OF found auth neq1 edge1 d1_eq]
  have auth1: "isAdmin \<or> createdBy d1 = userId"
    using auth by (simp add: d1_def)
  have neq2: "status d1 \<noteq> DELIVERED" and edge2: "DELIVERED \<in> set (validTransitions (status d1))"
    by (simp_all add: d1_def)
  have d2_eq: "d2 = d1\<lparr>status := DELIVERED, updatedBy := Some userId,
     statusHistory := statusHistory d1 @
       [\<lparr>entry_status = DELIVERED, changedAt = t_service tm',
         changedBy = userId, entry_notes = Some n'\<rparr>,
        \<lparr>entry_status = DELIVERED, changedAt = t_history tm',
         changedBy = userId, entry_notes = None\<rparr>],
     actualDelivery := (if DELIVERED = DELIVERED \<and> actualDelivery d1 = None
                        then Some (t_delivery tm') else actualDelivery d1)\<rparr>"
    by (cases "actualDelivery s") (simp_all add: d2_def d1_def)
  note step2 = updateStatus_edge [OF step1(2) auth1 neq2 edge2 d2_eq]
  have "shipment_id d2 = i" "status d2 = DELIVERED" "actualDelivery d2 \<noteq> None"
    using findById_id [OF found] by (simp_all add: d2_def d1_def)
  with step1 step2
  show "let d1 = s\<lparr>status := IN_TRANSIT, updatedBy := Some userId,
                   statusHistory := statusHistory s @
                     [\<lparr>entry_status = IN_TRANSIT, changedAt = t_service tm,
                       changedBy = userId, entry_notes = Some n\<rparr>,
                      \<lparr>entry_status = IN_TRANSIT, changedAt = t_history tm,
                       changedBy = userId, entry_notes = None\<rparr>]\<rparr>;
            d2 = d1\<lparr>status := DELIVERED,
                   statusHistory := statusHistory d1 @
                     [\<lparr>entry_status = DELIVERED, changedAt = t_service tm',
                       changedBy = userId, entry_notes = Some n'\<rparr>,
                      \<lparr>entry_status = DELIVERED, changedAt = t_history tm',
                       changedBy = userId, entry_notes = None\<rparr>],
                   actualDelivery :=
                     Some (case actualDelivery s of None \<Rightarrow> t_delivery tm' | Some a \<Rightarrow> a)\<rparr>
        in updateStatus store i IN_TRANSIT userId n isAdmin tm =
             (Inr (Some d1), replaceOne d1 store) \<and>
           updateStatus (replaceOne d1 store) i DELIVERED userId n' isAdmin tm' =
             (Inr (Some d2), replaceOne d2 (replaceOne d1 store)) \<and>
           findById (replaceOne d2 (replaceOne d1 store)) i = Some d2 \<and>
           shipment_id d2 = i \<and> status d2 = DELIVERED \<and>
           actualDelivery d2 \<noteq> None"
    unfolding Let_def d1_def [symmetric] d2_def [symmetric] by simp
qed

theorem updateStatus_transition_table_witness:
  "findById ex_store ''s1'' = Some ex_shipment \<and> createdBy ex_shipment = ''u1'' \<and>
   status ex_shipment = PENDING \<and>
   updateStatus ex_store ''s1'' DELIVERED ''u1'' [] False ex_times =
     (Inl (HttpError ''Cannot transition from pending to delivered'' 400), ex_store) \<and>
   map status (snd (updateStatus ex_store ''s1'' IN_TRANSIT ''u1'' [] False ex_times)) =
     [IN_TRANSIT] \<and>
   map (\<lambda>d. (status d, actualDelivery d))
     (snd (updateStatus (snd (updateStatus ex_store ''s1'' IN_TRANSIT ''u1'' [] False ex_times))
             ''s1'' DELIVERED ''u1'' [] False ex_later)) = [(DELIVERED, Some 202)]"
proof -
  have found: "findById ex_store ''s1'' = Some ex_shipment"
    by (simp add: findById_def ex_store_def ex_shipment_def)
  have auth: "False \<or> createdBy ex_shipment = ''u1''"
    by (simp add: ex_shipment_def)
  have pending: "status ex_shipment = PENDING"
    by (simp add: ex_shipment_def)
  note rule = updateStatus_transition_table [where newStatus = DELIVERED and tm = ex_times
      and n = "[]" and n' = "[]" and tm' = ex_later, OF found auth]
  from rule pending have rejected:
    "updateStatus ex_store ''s1'' DELIVERED ''u1'' [] False ex_times =
       (Inl (HttpError ''Cannot transition from pending to delivered'' 400), ex_store)"
    by blast
  from rule pending have accepted:
    "map status (snd (updateStatus ex_store ''s1'' IN_TRANSIT ''u1'' [] False ex_times)) =
       [IN_TRANSIT] \<and>
     map (\<lambda>d. (status d, actualDelivery d))
       (snd (updateStatus (snd (updateStatus ex_store ''s1'' IN_TRANSIT ''u1'' [] False ex_times))
               ''s1'' DELIVERED ''u1'' [] False ex_later)) = [(DELIVERED, Some 202)]"
    by (simp add: Let_def ex_store_def ex_shipment_def ex_later_def)
  from found auth pending rejected accepted show ?thesis
    by simp
qed

text \<open>
  C2. A status-change request whose status equals the current one is accepted, but it
  does not leave the shipment as it was: \<open>validateStatusTransition\<close> returns without
  an error and \<open>updateStatus\<close> goes on to append a history entry. Evaluated on the
  pending shipment \<open>ex_shipment\<close>, asked to become pending: the call succeeds and the
  stored history has two entries where it had one.
\<close>

theorem updateStatus_same_status_appends_history:
  "status ex_shipment = PENDING \<and> length (statusHistory ex_shipment) = 1 \<and>
   updateStatus ex_store ''s1'' PENDING ''u1'' ''again'' False ex_times =
     (Inr (Some (ex_shipment\<lparr>updatedBy := Some ''u1'',
        statusHistory := statusHistory ex_shipment @
          [\<lparr>entry_status = PENDING, changedAt = 100, changedBy = ''u1'',
            entry_notes = Some ''again''\<rparr>]\<rparr>)),
      [ex_shipment\<lparr>updatedBy := Some ''u1'',
        statusHistory := statusHistory ex_shipment @
          [\<lparr>entry_status = PENDING, changedAt = 100, changedBy = ''u1'',
            entry_notes = Some ''again''\<rparr>]\<rparr>]) \<and>
   map (\<lambda>s. length (statusHistory s))
     (snd (updateStatus ex_store ''s1'' PENDING ''u1'' ''again'' False ex_times)) = [2]"
  by (simp add: updateStatus_def validateStatusTransition_def save_def pre_save_status_def
      findById_def ex_store_def ex_shipment_def ex_times_def Let_def)

text \<open>
  C3, as stated, fails. An accepted transition to a different status appends two
  history entries, not one: \<open>updateStatus\<close> pushes the entry with the caller's notes,
  and the pre-save hook, seeing the status modified, pushes a second one without notes.
  On \<open>ex_shipment\<close>, moved from pending to in_transit, the history grows from one
  entry to three.
\<close>

theorem updateStatus_accepted_appends_two_entries:
  "length (statusHistory ex_shipment) = 1 \<and>
   map statusHistory
     (snd (updateStatus ex_store ''s1'' IN_TRANSIT ''u1'' ''picked up'' False ex_times)) =
     [statusHistory ex_shipment @
        [\<lparr>entry_status = IN_TRANSIT, changedAt = 100, changedBy = ''u1'',
          entry_notes = Some ''picked up''\<rparr>,
         \<lparr>entry_status = IN_TRANSIT, changedAt = 101, changedBy = ''u1'',
          entry_notes = None\<rparr>]] \<and>
   map (\<lambda>s. length (statusHistory s))
     (snd (updateStatus ex_store ''s1'' IN_TRANSIT ''u1'' ''picked up'' False ex_times)) = [3]"
  by (simp add: updateStatus_def validateStatusTransition_def save_def pre_save_status_def
      findById_def ex_store_def ex_shipment_def ex_times_def Let_def)

text \<open>
  C3, amended. For a stored shipment, an authorized caller and an accepted transition
  to a different status, the status-change operation appends two entries to the status
  history: first the entry with the new status, the service's clock reading, the actor
  id and the caller's notes, then the pre-save hook's entry with the new status, the
  hook's clock reading, the actor id and no notes. The length grows by exactly 2, the
  earlier entries are unchanged, and the actual-delivery date is set to the hook's
  clock reading if the new status is delivered and no date was set, and is left as it
  was otherwise. This is the shipment the call returns and the collection holds.
\<close>

theorem updateStatus_appends_service_and_hook_entries:
  assumes found: "findById store i = Some s"
    and auth: "isAdmin \<or> createdBy s = userId"
    and neq: "status s \<noteq> newStatus"
    and edge: "newStatus \<in> set (validTransitions (status s))"
  shows "\<exists>d. updateStatus store i newStatus userId n isAdmin tm =
                (Inr (Some d), replaceOne d store) \<and>
              findById (snd (updateStatus store i newStatus userId n isAdmin tm)) i = Some d \<and>
              statusHistory d = statusHistory s @
                [\<lparr>entry_status = newStatus, changedAt = t_service tm, changedBy = userId,
                  entry_notes = Some n\<rparr>,
                 \<lparr>entry_status = newStatus, changedAt = t_history tm, changedBy = userId,
                  entry_notes = None\<rparr>] \<and>
              length (statusHistory d) = length (statusHistory s) + 2 \<and>
              take (length (statusHistory s)) (statusHistory d) = statusHistory s \<and>
              actualDelivery d =
                (if newStatus = DELIVERED \<and> actualDelivery s = None
                 then Some (t_delivery tm) else actualDelivery s)"
proof -
  let ?d = "s\<lparr>status := newStatus, updatedBy := Some userId,
      statusHistory := statusHistory s @
        [\<lparr>entry_status = newStatus, changedAt = t_service tm, changedBy = userId,
          entry_notes = Some n\<rparr>,
         \<lparr>entry_status = newStatus, changedAt = t_history tm, changedBy = userId,
          entry_notes = None\<rparr>],
      actualDelivery := (if newStatus = DELIVERED \<and> actualDelivery s = None
                         then Some (t_delivery tm) else actualDelivery s)\<rparr>"
  note step = updateStatus_edge [where tm = tm and n = n, OF found auth neq edge refl]
  have result: "updateStatus store i newStatus userId n isAdmin tm =
      (Inr (Some ?d), replaceOne ?d store)"
    by (rule step(1))
  have stored: "findById (snd (updateStatus store i newStatus userId n isAdmin tm)) i = Some ?d"
    by (simp add: result step(2))
  have fields: "statusHistory ?d = statusHistory s @
        [\<lparr>entry_status = newStatus, changedAt = t_service tm, changedBy = userId,
          entry_notes = Some n\<rparr>,
         \<lparr>entry_status = newStatus, changedAt = t_history tm, changedBy = userId,
          entry_notes = None\<rparr>]"
    "length (statusHistory ?d) = length (statusHistory s) + 2"
    "take (length (statusHistory s)) (statusHistory ?d) = statusHistory s"
    "actualDelivery ?d = (if newStatus = DELIVERED \<and> actualDelivery s = None
                          then Some (t_delivery tm) else actualDelivery s)"
    by simp_all
  from result stored fields show ?thesis
    by blast
qed

theorem updateStatus_appends_service_and_hook_entries_witness:
  "findById ex_store ''s1'' = Some ex_shipment \<and> createdBy ex_shipment = ''u1'' \<and>
   status ex_shipment \<noteq> IN_TRANSIT \<and> IN_TRANSIT \<in> set (validTransitions (status ex_shipment)) \<and>
   (\<exists>d. findById (snd (updateStatus ex_store ''s1'' IN_TRANSIT ''u1'' ''picked up'' False ex_times))
          ''s1'' = Some d \<and>
        length (statusHistory d) = 3 \<and> actualDelivery d = None)"
proof -
  have found: "findById ex_store ''s1'' = Some ex_shipment"
    by (simp add: findById_def ex_store_def ex_shipment_def)
  have auth: "False \<or> createdBy ex_shipment = ''u1''"
    by (simp add: ex_shipment_def)
  have neq: "status ex_shipment \<noteq> IN_TRANSIT"
    and edge: "IN_TRANSIT \<in> set (validTransitions (status ex_shipment))"
    by (simp_all add: ex_shipment_def)
  from updateStatus_appends_service_and_hook_entries
    [where n = "''picked up''" and tm = ex_times, OF found auth neq edge]
  have "\<exists>d. findById (snd (updateStatus ex_store ''s1'' IN_TRANSIT ''u1'' ''picked up'' False
                ex_times)) ''s1'' = Some d \<and>
            length (statusHistory d) = 3 \<and> actualDelivery d = None"
    by (auto simp: ex_shipment_def)
  with found auth neq edge show ?thesis
    by simp
qed

section \<open>Deletion\<close>

lemma findById_findByIdAndDelete:
  "distinct (map shipment_id store) \<Longrightarrow> findById (findByIdAndDelete store i) i = None"
  by (induction store) (auto simp: findById_def find_None_iff image_iff)

lemma length_findByIdAndDelete:
  "findById store i = Some s \<Longrightarrow> Suc (length (findByIdAndDelete store i)) = length store"
  by (induction store) (auto simp: findById_def split: if_splits)

text \<open>
  C6. For a stored shipment: its non-admin owner deletes it exactly when its status is
  pending or cancelled, and is otherwise answered with a 400 error while the collection
  stays as it was; an admin deletes it whatever its status. A deletion removes one
  document, and no document with that id is left when ids are distinct.
\<close>

theorem deleteShipment_status_rule:
  assumes found: "findById store i = Some s"
  shows "(createdBy s = userId \<longrightarrow>
            deleteShipment store i userId False =
              (if status s = PENDING \<or> status s = CANCELLED
               then (Inr ''Shipment deleted successfully'', findByIdAndDelete store i)
               else (Inl (HttpError ''Can only delete pending or cancelled shipments'' 400), store))) \<and>
         deleteShipment store i userId True =
           (Inr ''Shipment deleted successfully'', findByIdAndDelete store i) \<and>
         Suc (length (findByIdAndDelete store i)) = length store \<and>
         (distinct (map shipment_id store) \<longrightarrow> findById (findByIdAndDelete store i) i = None)"
  using found
  by (simp add: deleteShipment_def badRequest_def findById_findByIdAndDelete
      length_findByIdAndDelete)

theorem deleteShipment_status_rule_witness:
  "findById ex_in_transit_store ''s1'' \<noteq> None \<and>
   deleteShipment ex_in_transit_store ''s1'' ''u1'' False =
     (Inl (HttpError ''Can only delete pending or cancelled shipments'' 400), ex_in_transit_store) \<and>
   deleteShipment ex_in_transit_store ''s1'' ''a1'' True =
     (Inr ''Shipment deleted successfully'', [])"
proof -
  let ?s = "ex_shipment\<lparr>status := IN_TRANSIT, updatedBy := Some ''u1'',
     statusHistory := statusHistory ex_shipment @
       [\<lparr>entry_status = IN_TRANSIT, changedAt = 100, changedBy = ''u1'',
         entry_notes = Some ''picked up''\<rparr>,
        \<lparr>entry_status = IN_TRANSIT, changedAt = 101, changedBy = ''u1'',
         entry_notes = None\<rparr>]\<rparr>"
  have store: "ex_in_transit_store = [?s]"
    by (simp add: ex_in_transit_store_def updateStatus_def validateStatusTransition_def save_def
        pre_save_status_def findById_def ex_store_def ex_shipment_def ex_times_def Let_def)
  have found: "findById ex_in_transit_store ''s1'' = Some ?s"
    by (simp add: store findById_def ex_shipment_def)
  from deleteShipment_status_rule [OF found, of "''u1''"]
       deleteShipment_status_rule [OF found, of "''a1''"]
  show ?thesis
    using found by (simp add: store ex_shipment_def)
qed

section \<open>Public tracking\<close>

text \<open>
  C7. The public tracking result has no \<open>createdBy\<close> field, yet it carries the status
  history with every entry's \<open>changedBy\<close>, and the entry written at creation names the
  owner. Evaluated on the shipment that \<open>createShipment\<close> stores for user \<open>u1\<close>: the
  tracking result's history lists \<open>u1\<close>, the owner's id.
\<close>

theorem trackShipment_exposes_owner_id:
  "createShipment ascii [] ex_create_data ''u1'' ''s1'' ''SHP-ABC-123'' ex_times =
     (Inr (Some ex_shipment), ex_store) \<and>
   createdBy ex_shipment = ''u1'' \<and>
   trackShipment ascii ex_store ''SHP-ABC-123'' = Inr (select_tracking ex_shipment) \<and>
   map changedBy (tv_statusHistory (select_tracking ex_shipment)) = [''u1'']"
  by (simp add: createShipment_def create_shipment_def new_Shipment_def save_new_def
      trackShipment_def findByTrackingNumber_def trackingNumber_setters_def select_tracking_def
      findById_def ascii_def upper_char_def ascii_trim_def is_space_def length_between_def
      ex_store_def ex_shipment_def ex_times_def ex_create_data_def Let_def)

section \<open>Terminal statuses\<close>

lemma updateStatus_store_cases:
  "snd (updateStatus store j st userId n isAdmin tm) = store \<or>
   (\<exists>s' d. findById store j = Some s' \<and> (st = status s' \<or> st \<in> set (validTransitions (status s'))) \<and>
           snd (updateStatus store j st userId n isAdmin tm) = replaceOne d store \<and>
           shipment_id d = j \<and> status d = st)"
proof (cases "findById store j")
  case None
  then show ?thesis by (simp add: updateStatus_def)
next
  case (Some s')
  note id = findById_id [OF Some]
  show ?thesis
  proof (cases "(isAdmin \<or> createdBy s' = userId) \<and>
                validateStatusTransition (status s') st = Inr ()")
    case True
    then have ok: "st = status s' \<or> st \<in> set (validTransitions (status s'))"
      by (auto simp: validateStatusTransition_def split: if_splits)
    from True have auth: "isAdmin \<or> createdBy s' = userId"
      and valid: "validateStatusTransition (status s') st = Inr ()" by simp_all
    let ?d = "pre_save_status s'
       (s'\<lparr>status := st, updatedBy := Some userId,
           statusHistory := statusHistory s' @
             [\<lparr>entry_status = st, changedAt = t_service tm, changedBy = userId,
               entry_notes = Some n\<rparr>]\<rparr>) tm"
    have "snd (updateStatus store j st userId n isAdmin tm) = replaceOne ?d store"
      by (simp add: updateStatus_accepted [OF Some auth valid] Let_def)
    moreover have "shipment_id ?d = j" "status ?d = st"
      using id by simp_all
    ultimately show ?thesis
      using ok Some by blast
  next
    case False
    then show ?thesis
      using Some by (auto simp: updateStatus_def split: sum.splits)
  qed
qed

lemma addAttachment_store_cases:
  "snd (addAttachment store j att userId isAdmin tm) = store \<or>
   (\<exists>s' d. findById store j = Some s' \<and>
           snd (addAttachment store j att userId isAdmin tm) = replaceOne d store \<and>
           shipment_id d = j \<and> status d = status s')"
proof (cases "findById store j")
  case None
  then show ?thesis by (simp add: addAttachment_def)
next
  case (Some s')
  show ?thesis
  proof (cases "\<not> isAdmin \<and> createdBy s' \<noteq> userId")
    case True
    then show ?thesis using Some by (simp add: addAttachment_def)
  next
    case False
    let ?d = "pre_save_status s' (s'\<lparr>attachments := attachments s' @ [att], updatedBy := Some userId\<rparr>) tm"
    have "snd (addAttachment store j att userId isAdmin tm) = replaceOne ?d store"
      using False Some by (auto simp: addAttachment_def Let_def)
    moreover have "shipment_id ?d = j" "status ?d = status s'"
      using findById_id [OF Some] by simp_all
    ultimately show ?thesis
      using Some by blast
  qed
qed

lemma removeAttachment_store_cases:
  "snd (removeAttachment store j aid userId isAdmin tm) = store \<or>
   (\<exists>s' d. findById store j = Some s' \<and>
           snd (removeAttachment store j aid userId isAdmin tm) = replaceOne d store \<and>
           shipment_id d = j \<and> status d = status s')"
proof (cases "findById store j")
  case None
  then show ?thesis by (simp add: removeAttachment_def)
next
  case (Some s')
  show ?thesis
  proof (cases "findIndex (\<lambda>a. attachment_id a = aid) (attachments s')")
    case None
    then show ?thesis using Some by (simp add: removeAttachment_def)
  next
    case (Some k)
    show ?thesis
    proof (cases "\<not> isAdmin \<and> createdBy s' \<noteq> userId")
      case True
      then show ?thesis using \<open>findById store j = Some s'\<close> by (simp add: removeAttachment_def)
    next
      case False
      let ?d = "pre_save_status s'
         (s'\<lparr>attachments := splice1 k (attachments s'), updatedBy := Some userId\<rparr>) tm"
      have "snd (removeAttachment store j aid userId isAdmin tm) = replaceOne ?d store"
        using False Some \<open>findById store j = Some s'\<close>
        by (auto simp: removeAttachment_def Let_def)
      moreover have "shipment_id ?d = j" "status ?d = status s'"
        using findById_id [OF \<open>findById store j = Some s'\<close>] by simp_all
      ultimately show ?thesis
        using \<open>findById store j = Some s'\<close> by blast
    qed
  qed
qed

lemma status_kept_by_replaceOne:
  assumes found: "findById store i = Some s"
    and step: "store' = store \<or>
       (\<exists>s' d. findById store j = Some s' \<and> store' = replaceOne d store \<and>
               shipment_id d = j \<and> (j = i \<longrightarrow> status d = status s))"
  shows "\<exists>d. findById store' i = Some d \<and> status d = status s"
  using step
proof (elim disjE exE conjE)
  assume "store' = store"
  with found show ?thesis by simp
next
  fix s' d
  assume s': "findById store j = Some s'" and store': "store' = replaceOne d store"
    and d: "shipment_id d = j" and st: "j = i \<longrightarrow> status d = status s"
  show ?thesis
  proof (cases "j = i")
    case True
    then show ?thesis
      using findById_replaceOne [OF found, of d] d st store' by simp
  next
    case False
    then show ?thesis
      using findById_replaceOne_other [of d i store] d found store' by simp
  qed
qed

lemma ex_delivered_store_eq: "ex_delivered_store = [ex_delivered]"
  by (simp add: ex_delivered_store_def ex_in_transit_store_def ex_delivered_def updateStatus_def
      validateStatusTransition_def save_def pre_save_status_def findById_def ex_store_def
      ex_shipment_def ex_times_def ex_later_def Let_def)

text \<open>
  C4, as stated, fails. The generic update takes a status in its validated body and
  assigns it without consulting the transition table: the owner's update with status
  pending turns the delivered shipment of \<open>ex_delivered_store\<close> back to pending.
\<close>

theorem generic_update_reopens_delivered:
  "map status ex_delivered_store = [DELIVERED] \<and>
   map status
     (snd (controller_update ascii ex_delivered_store ex_owner ''s1'' ex_status_update ex_later))
     = [PENDING]"
  by (simp add: ex_delivered_store_eq ex_delivered_def controller_update_def updateShipment_def
      assign_def validate_modified_def save_def pre_save_status_def findById_def
      ex_shipment_def ex_owner_def ex_status_update_def ex_later_def Let_def)

text \<open>
  C4, amended. For a stored shipment whose status is delivered or cancelled, no
  status-change request and no attachment addition or removal, on this or on any other
  shipment, changes its status: after the call the shipment is still stored with the
  same status.
\<close>

theorem terminal_status_kept:
  assumes found: "findById store i = Some s"
    and terminal: "status s = DELIVERED \<or> status s = CANCELLED"
  shows "(\<exists>d. findById (snd (updateStatus store j st userId n isAdmin tm)) i = Some d \<and>
              status d = status s) \<and>
         (\<exists>d. findById (snd (addAttachment store j att userId isAdmin tm)) i = Some d \<and>
              status d = status s) \<and>
         (\<exists>d. findById (snd (removeAttachment store j aid userId isAdmin tm)) i = Some d \<and>
              status d = status s)"
proof (intro conjI)
  have no_edge: "validTransitions (status s) = []"
    using terminal by auto
  have "snd (updateStatus store j st userId n isAdmin tm) = store \<or>
     (\<exists>s' d. findById store j = Some s' \<and>
             snd (updateStatus store j st userId n isAdmin tm) = replaceOne d store \<and>
             shipment_id d = j \<and> (j = i \<longrightarrow> status d = status s))"
    using updateStatus_store_cases [of store j st userId n isAdmin tm] found no_edge
    by auto
  then show "\<exists>d. findById (snd (updateStatus store j st userId n isAdmin tm)) i = Some d \<and>
                 status d = status s"
    by (rule status_kept_by_replaceOne [OF found])
next
  have "snd (addAttachment store j att userId isAdmin tm) = store \<or>
     (\<exists>s' d. findById store j = Some s' \<and>
             snd (addAttachment store j att userId isAdmin tm) = replaceOne d store \<and>
             shipment_id d = j \<and> (j = i \<longrightarrow> status d = status s))"
    using addAttachment_store_cases [of store j att userId isAdmin tm] found
    by auto
  then show "\<exists>d. findById (snd (addAttachment store j att userId isAdmin tm)) i = Some d \<and>
                 status d = status s"
    by (rule status_kept_by_replaceOne [OF found])
next
  have "snd (removeAttachment store j aid userId isAdmin tm) = store \<or>
     (\<exists>s' d. findById store j = Some s' \<and>
             snd (removeAttachment store j aid userId isAdmin tm) = replaceOne d store \<and>
             shipment_id d = j \<and> (j = i \<longrightarrow> status d = status s))"
    using removeAttachment_store_cases [of store j aid userId isAdmin tm] found
    by auto
  then show "\<exists>d. findById (snd (removeAttachment store j aid userId isAdmin tm)) i = Some d \<and>
                 status d = status s"
    by (rule status_kept_by_replaceOne [OF found])
qed

theorem terminal_status_kept_witness:
  "findById ex_delivered_store ''s1'' = Some ex_delivered \<and> status ex_delivered = DELIVERED \<and>
   (\<exists>d. findById (snd (updateStatus ex_delivered_store ''s1'' IN_TRANSIT ''u1'' [] False ex_later))
          ''s1'' = Some d \<and> status d = DELIVERED) \<and>
   (\<exists>d. findById (snd (addAttachment ex_delivered_store ''s1'' ex_attachment ''u1'' False ex_later))
          ''s1'' = Some d \<and> status d = DELIVERED)"
proof -
  have found: "findById ex_delivered_store ''s1'' = Some ex_delivered"
    by (simp add: ex_delivered_store_eq findById_def ex_delivered_def ex_shipment_def)
  have terminal: "status ex_delivered = DELIVERED \<or> status ex_delivered = CANCELLED"
    by (simp add: ex_delivered_def)
  from terminal_status_kept [OF found terminal, of "''s1''" IN_TRANSIT "''u1''" "[]" False ex_later
      ex_attachment "''att1''"]
  show ?thesis
    using found by (simp add: ex_delivered_def)
qed

section \<open>Access to shipments\<close>





section \<open>Login\<close>

lemma findOneByEmail_mem:
  "findOneByEmail js users q = Some u \<Longrightarrow> u \<in> set users \<and> email u = email_setters js q"
  by (auto simp: findOneByEmail_def find_Some_iff)

lemma findOneByEmail_replaceUser:
  assumes "findOneByEmail js users q = Some u" "distinct (map user_id users)"
    and "user_id u' = user_id u" "email u' = email u"
  shows "findOneByEmail js (replaceUser u' users) q = Some u'"
  using assms
proof (induction users)
  case Nil
  then show ?case by (simp add: findOneByEmail_def)
next
  case (Cons x xs)
  show ?case
  proof (cases "email x = email_setters js q")
    case True
    with Cons.prems show ?thesis by (simp add: findOneByEmail_def)
  next
    case False
    with Cons.prems have rest: "findOneByEmail js xs q = Some u"
      by (simp add: findOneByEmail_def)
    then have "u \<in> set xs" by (simp add: findOneByEmail_mem)
    with Cons.prems have "user_id x \<noteq> user_id u" by auto
    with Cons.IH [OF rest] Cons.prems False show ?thesis
      by (simp add: findOneByEmail_def)
  qed
qed

lemma findUserById_mem:
  "u \<in> set users \<Longrightarrow> distinct (map user_id users) \<Longrightarrow> findUserById users (user_id u) = Some u"
  by (induction users) (auto simp: findUserById_def image_iff)

lemma activateUser_found:
  "findUserById users i = Some u \<Longrightarrow>
   activateUser js users i = (Inr (u\<lparr>isActive := True\<rparr>), replaceUser (u\<lparr>isActive := True\<rparr>) users)"
  by (simp add: activateUser_def updateById_def findByIdAndUpdate_def Let_def)

lemma deactivateUser_found:
  "findUserById users i = Some u \<Longrightarrow>
   deactivateUser js users i =
     (Inr (u\<lparr>isActive := False\<rparr>), replaceUser (u\<lparr>isActive := False\<rparr>) users)"
  by (simp add: deactivateUser_def updateById_def findByIdAndUpdate_def Let_def)

lemma ex_deactivated_users_eq:
  "ex_deactivated_users = [ex_owner\<lparr>isActive := False\<rparr>, ex_other, ex_admin]"
proof -
  have "findUserById ex_users ''u1'' = Some ex_owner"
    by (simp add: findUserById_def ex_users_def ex_owner_def)
  then show ?thesis
    by (simp add: ex_deactivated_users_def deactivateUser_found ex_users_def ex_owner_def)
qed

text \<open>
  C8. For a stored user found by the (lower-cased) login email whose active flag is
  false, login with the correct password fails with the 403 error "Account is
  deactivated", which is not the 401 of bad credentials, and changes nothing. After
  \<open>activateUser\<close> on that user, login with the same email and password succeeds and
  returns the user and a token, while a wrong password is answered with 401.
\<close>

theorem login_deactivated_forbidden:
  assumes found: "findOneByEmail js users (toLowerCase js e) = Some u"
    and inactive: "\<not> isActive u"
    and correct: "compare p (password u)"
    and ids: "distinct (map user_id users)"
  shows "login js compare users e p now =
           (Inl (HttpError ''Account is deactivated'' 403), users) \<and>
         HttpError ''Account is deactivated'' 403 \<noteq> unauthorized ''Invalid email or password'' \<and>
         activateUser js users (user_id u) =
           (Inr (u\<lparr>isActive := True\<rparr>), replaceUser (u\<lparr>isActive := True\<rparr>) users) \<and>
         login js compare (replaceUser (u\<lparr>isActive := True\<rparr>) users) e p now' =
           (Inr (toJSON (u\<lparr>isActive := True, lastLogin := Some now'\<rparr>),
                 generateAuthToken (u\<lparr>isActive := True, lastLogin := Some now'\<rparr>)),
            replaceUser (u\<lparr>isActive := True, lastLogin := Some now'\<rparr>)
              (replaceUser (u\<lparr>isActive := True\<rparr>) users)) \<and>
         (\<not> compare p' (password u) \<longrightarrow>
            login js compare (replaceUser (u\<lparr>isActive := True\<rparr>) users) e p' now' =
              (Inl (HttpError ''Invalid email or password'' 401),
               replaceUser (u\<lparr>isActive := True\<rparr>) users))"
proof -
  let ?u = "u\<lparr>isActive := True\<rparr>"
  have mem: "u \<in> set users"
    using found by (simp add: findOneByEmail_mem)
  have byid: "findUserById users (user_id u) = Some u"
    by (rule findUserById_mem [OF mem ids])
  have found': "findOneByEmail js (replaceUser ?u users) (toLowerCase js e) = Some ?u"
    by (rule findOneByEmail_replaceUser [OF found ids]) simp_all
  have first: "login js compare users e p now =
      (Inl (HttpError ''Account is deactivated'' 403), users)"
    using found inactive by (simp add: login_def forbidden_def)
  have act: "activateUser js users (user_id u) = (Inr ?u, replaceUser ?u users)"
    by (rule activateUser_found [OF byid])
  have again: "login js compare (replaceUser ?u users) e p now' =
      (Inr (toJSON (u\<lparr>isActive := True, lastLogin := Some now'\<rparr>),
            generateAuthToken (u\<lparr>isActive := True, lastLogin := Some now'\<rparr>)),
       replaceUser (u\<lparr>isActive := True, lastLogin := Some now'\<rparr>) (replaceUser ?u users))"
    using found' correct by (simp add: login_def Let_def)
  have wrong: "\<not> compare p' (password u) \<longrightarrow>
      login js compare (replaceUser ?u users) e p' now' =
        (Inl (HttpError ''Invalid email or password'' 401), replaceUser ?u users)"
    using found' by (simp add: login_def unauthorized_def)
  from first act again wrong show ?thesis by (simp add: unauthorized_def)
qed

theorem login_deactivated_forbidden_witness:
  "findOneByEmail ascii ex_deactivated_users (toLowerCase ascii ''Ada@Example.com'') =
     Some (ex_owner\<lparr>isActive := False\<rparr>) \<and>
   ex_compare ''password123'' (password (ex_owner\<lparr>isActive := False\<rparr>)) \<and>
   distinct (map user_id ex_deactivated_users) \<and>
   login ascii ex_compare ex_deactivated_users ''Ada@Example.com'' ''password123'' 300 =
     (Inl (HttpError ''Account is deactivated'' 403), ex_deactivated_users) \<and>
   fst (login ascii ex_compare (snd (activateUser ascii ex_deactivated_users ''u1''))
          ''Ada@Example.com'' ''password123'' 400) =
     Inr (toJSON (ex_owner\<lparr>lastLogin := Some 400\<rparr>),
          generateAuthToken (ex_owner\<lparr>lastLogin := Some 400\<rparr>))"
proof -
  note store = ex_deactivated_users_eq
  have found: "findOneByEmail ascii ex_deactivated_users (toLowerCase ascii ''Ada@Example.com'') =
      Some (ex_owner\<lparr>isActive := False\<rparr>)"
    by (simp add: store findOneByEmail_def email_setters_def ascii_def lower_char_def
        ascii_trim_def is_space_def ex_owner_def)
  have inactive: "\<not> isActive (ex_owner\<lparr>isActive := False\<rparr>)"
    by simp
  have correct: "ex_compare ''password123'' (password (ex_owner\<lparr>isActive := False\<rparr>))"
    by (simp add: ex_compare_def ex_owner_def)
  have ids: "distinct (map user_id ex_deactivated_users)"
    by (simp add: store ex_owner_def ex_other_def ex_admin_def)
  note rule = login_deactivated_forbidden [of ascii ex_deactivated_users "''Ada@Example.com''"
      "ex_owner\<lparr>isActive := False\<rparr>" ex_compare "''password123''" 300 400 "''wrong''",
      OF found inactive correct ids]
  from rule have first:
    "login ascii ex_compare ex_deactivated_users ''Ada@Example.com'' ''password123'' 300 =
      (Inl (HttpError ''Account is deactivated'' 403), ex_deactivated_users)"
    by blast
  from rule have act: "snd (activateUser ascii ex_deactivated_users ''u1'') =
      replaceUser (ex_owner\<lparr>isActive := False, isActive := True\<rparr>) ex_deactivated_users"
    by (simp add: ex_owner_def)
  from rule have again: "fst (login ascii ex_compare
        (replaceUser (ex_owner\<lparr>isActive := False, isActive := True\<rparr>) ex_deactivated_users)
        ''Ada@Example.com'' ''password123'' 400) =
      Inr (toJSON (ex_owner\<lparr>isActive := False, isActive := True, lastLogin := Some 400\<rparr>),
           generateAuthToken (ex_owner\<lparr>isActive := False, isActive := True, lastLogin := Some 400\<rparr>))"
    by simp
  have same: "ex_owner\<lparr>isActive := False, isActive := True, lastLogin := Some 400\<rparr> =
      ex_owner\<lparr>lastLogin := Some 400\<rparr>"
    by (simp add: ex_owner_def)
  show ?thesis
    using found correct ids first again by (simp only: act same simp_thms)
qed

text \<open>
  C10. Login tests the active flag before it compares the password: for a deactivated
  user the answer is the 403 error "Account is deactivated" whatever the password and
  whatever the comparison function says about it, whereas an email that no stored user
  has is answered with 401.
\<close>

theorem login_checks_active_flag_first:
  assumes found: "findOneByEmail js users (toLowerCase js e) = Some u"
    and inactive: "\<not> isActive u"
  shows "login js compare users e p now =
           (Inl (HttpError ''Account is deactivated'' 403), users) \<and>
         (findOneByEmail js users (toLowerCase js e') = None \<longrightarrow>
            login js compare users e' p now =
              (Inl (HttpError ''Invalid email or password'' 401), users))"
  using found inactive by (simp add: login_def forbidden_def unauthorized_def)

theorem login_checks_active_flag_first_witness:
  "findOneByEmail ascii ex_deactivated_users (toLowerCase ascii ''ada@example.com'') =
     Some (ex_owner\<lparr>isActive := False\<rparr>) \<and>
   \<not> ex_compare ''wrong'' (password (ex_owner\<lparr>isActive := False\<rparr>)) \<and>
   login ascii ex_compare ex_deactivated_users ''ada@example.com'' ''wrong'' 300 =
     (Inl (HttpError ''Account is deactivated'' 403), ex_deactivated_users) \<and>
   login ascii ex_compare ex_deactivated_users ''nobody@example.com'' ''wrong'' 300 =
     (Inl (HttpError ''Invalid email or password'' 401), ex_deactivated_users)"
proof -
  note store = ex_deactivated_users_eq
  have found: "findOneByEmail ascii ex_deactivated_users (toLowerCase ascii ''ada@example.com'') =
      Some (ex_owner\<lparr>isActive := False\<rparr>)"
    by (simp add: store findOneByEmail_def email_setters_def ascii_def lower_char_def
        ascii_trim_def is_space_def ex_owner_def)
  have inactive: "\<not> isActive (ex_owner\<lparr>isActive := False\<rparr>)"
    by simp
  have wrong: "\<not> ex_compare ''wrong'' (password (ex_owner\<lparr>isActive := False\<rparr>))"
    by (simp add: ex_compare_def ex_owner_def)
  have unknown:
    "findOneByEmail ascii ex_deactivated_users (toLowerCase ascii ''nobody@example.com'') = None"
    by (simp add: store findOneByEmail_def email_setters_def ascii_def lower_char_def
        ascii_trim_def is_space_def ex_owner_def ex_other_def ex_admin_def)
  from login_checks_active_flag_first [OF found inactive, where e' = "''nobody@example.com''"
      and compare = ex_compare and p = "''wrong''" and now = 300]
  show ?thesis
    using found wrong unknown by simp
qed

section \<open>Registration\<close>

lemma register_success:
  assumes "register js hash users d i = (Inr r, users')"
  shows "\<exists>u. users' = users @ [u] \<and> email u = email_setters js (reg_email d) \<and>
             (\<forall>x\<in>set users. email x \<noteq> email u)"
  using assms
  by (auto simp: register_def create_user_def new_User_def save_new_user_def Let_def list_ex_iff
      split: option.splits if_splits)

text \<open>
  C9. JavaScript's lower-casing leaves a lower-cased string as it is, and lower-casing
  and trimming a string can be done in either order; for string functions with these
  two properties: if two registration requests have emails that are equal after
  lower-casing and the first one succeeds, then the second one fails with the 409 error
  "Email already registered" and leaves the collection as the first one left it, which
  holds exactly one user more than before. Registration keeps the invariant that stored
  emails are unique up to case.
\<close>

theorem register_duplicate_email_conflict:
  assumes idem: "\<forall>x. toLowerCase js (toLowerCase js x) = toLowerCase js x"
    and commute: "\<forall>x. trim js (toLowerCase js x) = toLowerCase js (trim js x)"
    and same: "toLowerCase js (reg_email d1) = toLowerCase js (reg_email d2)"
    and first: "register js hash users d1 id1 = (Inr r, users1)"
  shows "register js hash users1 d2 id2 =
           (Inl (HttpError ''Email already registered'' 409), users1) \<and>
         length users1 = Suc (length users) \<and>
         (emails_unique js users \<and> emails_normalised js users \<longrightarrow>
            emails_unique js users1 \<and> emails_normalised js users1)"
proof -
  from register_success [OF first] obtain u where
    users1: "users1 = users @ [u]" and mail: "email u = email_setters js (reg_email d1)"
    and fresh: "\<forall>x\<in>set users. email x \<noteq> email u"
    by blast
  have setters_lower: "email_setters js (toLowerCase js x) = email_setters js x" for x
    using idem commute by (simp add: email_setters_def)
  have normal: "toLowerCase js (email u) = email u"
    using idem by (simp add: mail email_setters_def)
  have "email_setters js (toLowerCase js (reg_email d2)) =
      email_setters js (toLowerCase js (reg_email d1))"
    by (simp add: same)
  then have "email u = email_setters js (toLowerCase js (reg_email d2))"
    by (simp add: mail setters_lower)
  then have "find (\<lambda>x. email x = email_setters js (toLowerCase js (reg_email d2))) users1 \<noteq> None"
    by (auto simp: users1 find_None_iff)
  then obtain v where "findByEmail js users1 (reg_email d2) = Some v"
    by (auto simp: findByEmail_def findOneByEmail_def)
  then have second: "register js hash users1 d2 id2 =
      (Inl (HttpError ''Email already registered'' 409), users1)"
    by (simp add: register_def conflict_def)
  have inv: "emails_unique js users \<and> emails_normalised js users \<longrightarrow>
      emails_unique js users1 \<and> emails_normalised js users1"
    using fresh normal
    by (auto simp: emails_unique_def emails_normalised_def users1 list_all_iff)
  from second inv show ?thesis
    by (simp add: users1)
qed

theorem register_duplicate_email_conflict_witness:
  "(\<forall>x. toLowerCase ascii (toLowerCase ascii x) = toLowerCase ascii x) \<and>
   (\<forall>x. trim ascii (toLowerCase ascii x) = toLowerCase ascii (trim ascii x)) \<and>
   toLowerCase ascii (reg_email ex_register_data) =
     toLowerCase ascii (reg_email ex_register_again) \<and>
   fst (register ascii ex_hash ex_users ex_register_data ''u3'') \<noteq>
     Inl (HttpError ''Email already registered'' 409) \<and>
   map email (snd (register ascii ex_hash ex_users ex_register_data ''u3'')) =
     [''ada@example.com'', ''bob@example.com'', ''admin@example.com'', ''carol@example.com''] \<and>
   register ascii ex_hash (snd (register ascii ex_hash ex_users ex_register_data ''u3''))
       ex_register_again ''u4'' =
     (Inl (HttpError ''Email already registered'' 409),
      snd (register ascii ex_hash ex_users ex_register_data ''u3'')) \<and>
   emails_unique ascii ex_users \<and> emails_normalised ascii ex_users \<and>
   emails_unique ascii (snd (register ascii ex_hash ex_users ex_register_data ''u3''))"
proof -
  let ?u = "\<lparr>user_id = ''u3'', name = ''Carol New'', email = ''carol@example.com'',
     password = ''hash:secret99'', role = USER, isActive = True, lastLogin = None,
     avatar = None\<rparr>"
  have idem: "\<forall>x. toLowerCase ascii (toLowerCase ascii x) = toLowerCase ascii x"
    by (simp add: ascii_toLowerCase_idem)
  have commute: "\<forall>x. trim ascii (toLowerCase ascii x) = toLowerCase ascii (trim ascii x)"
    by (simp add: ascii_trim_toLowerCase)
  have first: "register ascii ex_hash ex_users ex_register_data ''u3'' =
      (Inr (toJSON ?u, generateAuthToken ?u), ex_users @ [?u])"
    by (simp add: register_def create_user_def new_User_def save_new_user_def findByEmail_def
        findOneByEmail_def email_setters_def ascii_def lower_char_def ascii_trim_def is_space_def
        email_match_def length_between_def ex_hash_def ex_users_def ex_owner_def ex_other_def
        ex_admin_def ex_register_data_def Let_def)
  have same: "toLowerCase ascii (reg_email ex_register_data) =
      toLowerCase ascii (reg_email ex_register_again)"
    by (simp add: ascii_def lower_char_def ex_register_data_def ex_register_again_def)
  have emails: "map email ex_users =
      [''ada@example.com'', ''bob@example.com'', ''admin@example.com'']"
    by (simp add: ex_users_def ex_owner_def ex_other_def ex_admin_def)
  have base: "emails_unique ascii ex_users \<and> emails_normalised ascii ex_users"
    by (simp add: emails_unique_def emails_normalised_def ascii_def lower_char_def
        ex_users_def ex_owner_def ex_other_def ex_admin_def)
  note rule = register_duplicate_email_conflict [OF idem commute same first, of "''u4''"]
  from rule have second: "register ascii ex_hash (ex_users @ [?u]) ex_register_again ''u4'' =
      (Inl (HttpError ''Email already registered'' 409), ex_users @ [?u])"
    by blast
  from rule base have inv: "emails_unique ascii (ex_users @ [?u])"
    by blast
  show ?thesis
    using idem commute same second inv base by (simp add: first emails)
qed

end
